theory Spec2Isabelle
  imports Main "HOL-Library.Sublist"
begin

section \<open>JavaScript values used by the embedding\<close>

text \<open>
  The sources are TypeScript. An optional property \<open>p?: T\<close> is a \<open>T option\<close>
  (\<open>None\<close> is \<open>undefined\<close>). The operators \<open>&&\<close>, \<open>||\<close>, \<open>!\<close> and the spread of a
  conditional object test JavaScript truthiness, which is written out per type: an array
  or an object is always truthy, a string is truthy when it is not empty, \<open>undefined\<close> is
  falsy.
\<close>

definition truthy_str :: "string option \<Rightarrow> bool" where
  "truthy_str s = (case s of None \<Rightarrow> False | Some v \<Rightarrow> v \<noteq> [])"

definition truthy_obj :: "'a option \<Rightarrow> bool" where
  "truthy_obj x = (case x of None \<Rightarrow> False | Some _ \<Rightarrow> True)"

text \<open>\<open>a ?? d\<close>: the default is taken only when \<open>a\<close> is \<open>undefined\<close> (or \<open>null\<close>).\<close>

definition nullish :: "'a option \<Rightarrow> 'a \<Rightarrow> 'a" where
  "nullish a d = (case a of None \<Rightarrow> d | Some v \<Rightarrow> v)"


section \<open>The Claude provider: \<open>apps/server/src/providers/claude-provider.ts\<close>\<close>

text \<open>
  \<open>ExecuteOptions\<close> and the MCP server configuration of the session are declared in the
  package \<open>@automaker/types\<close>; \<open>executeQuery\<close> reads the fields below and never looks
  inside a server configuration, a sandbox directive or the abort controller.
\<close>

datatype McpServerConfig =
    McpStdioServerConfig string "string list"
  | McpSSEServerConfig string
  | McpHttpServerConfig string

datatype ContentPart = TextPart string | ImagePart string

text \<open>The sandbox directive is an object: whether it is enabled and auto-allows Bash.\<close>

datatype SandboxSettings = SandboxSettings bool bool

datatype Prompt = PlainText string | MultiPart "ContentPart list"

record ConversationMessage =
  role :: string
  content :: string

record ExecuteOptions =
  prompt :: Prompt
  model :: string
  cwd :: string
  systemPrompt :: "string option"
  maxTurns :: "nat option"
  allowedTools :: "string list option"
  abortController :: "nat option"
  conversationHistory :: "ConversationMessage list option"
  sdkSessionId :: "string option"
  mcpServers :: "(string \<times> McpServerConfig) list option"
  mcpAutoApproveTools :: "bool option"
  mcpUnrestrictedTools :: "bool option"
  settingSources :: "string list option"
  sandbox :: "SandboxSettings option"

datatype PermissionMode = bypassPermissions | default_mode

text \<open>
  The \<open>Options\<close> object handed to the SDK's \<open>query\<close>. A property that the spread
  leaves out is \<open>None\<close>. Field \<open>o_x\<close> is the property \<open>x\<close> of the source.
\<close>

record Options =
  o_model :: string
  o_systemPrompt :: "string option"
  o_maxTurns :: nat
  o_cwd :: string
  o_allowedTools :: "string list option"
  o_permissionMode :: PermissionMode
  o_allowDangerouslySkipPermissions :: "bool option"
  o_abortController :: "nat option"
  o_resume :: "string option"
  o_settingSources :: "string list option"
  o_sandbox :: "SandboxSettings option"
  o_mcpServers :: "(string \<times> McpServerConfig) list option"

definition defaultTools :: "string list" where
  "defaultTools =
     [''Read'', ''Write'', ''Edit'', ''Glob'', ''Grep'', ''Bash'', ''WebSearch'', ''WebFetch'']"

text \<open>\<open>options.mcpServers && Object.keys(options.mcpServers).length > 0\<close>\<close>

definition hasMcpServers :: "ExecuteOptions \<Rightarrow> bool" where
  "hasMcpServers options =
     (case mcpServers options of None \<Rightarrow> False | Some m \<Rightarrow> length (map fst m) > 0)"

definition mcpAutoApprove :: "ExecuteOptions \<Rightarrow> bool" where
  "mcpAutoApprove options = nullish (mcpAutoApproveTools options) True"

definition mcpUnrestricted :: "ExecuteOptions \<Rightarrow> bool" where
  "mcpUnrestricted options = nullish (mcpUnrestrictedTools options) True"

definition shouldBypassPermissions :: "ExecuteOptions \<Rightarrow> bool" where
  "shouldBypassPermissions options \<longleftrightarrow> hasMcpServers options \<and> mcpAutoApprove options"

definition shouldRestrictTools :: "ExecuteOptions \<Rightarrow> bool" where
  "shouldRestrictTools options \<longleftrightarrow> \<not> hasMcpServers options \<or> \<not> mcpUnrestricted options"

text \<open>
  The object literal of lines 54 to 77, one property per line of the source. The two
  spreads for \<open>allowedTools\<close> exclude each other; the first is the outer test.
\<close>

definition sdkOptions :: "ExecuteOptions \<Rightarrow> Options" where
  "sdkOptions options =
     \<lparr> o_model = model options,
       o_systemPrompt = systemPrompt options,
       o_maxTurns = nullish (maxTurns options) 20,
       o_cwd = cwd options,
       o_allowedTools =
         (if truthy_obj (allowedTools options) \<and> shouldRestrictTools options
            then allowedTools options
          else if \<not> truthy_obj (allowedTools options) \<and> shouldRestrictTools options
            then Some defaultTools
          else None),
       o_permissionMode =
         (if shouldBypassPermissions options then bypassPermissions else default_mode),
       o_allowDangerouslySkipPermissions =
         (if shouldBypassPermissions options then Some True else None),
       o_abortController = abortController options,
       o_resume =
         (if truthy_str (sdkSessionId options)
             \<and> (case conversationHistory options of None \<Rightarrow> False
                  | Some h \<Rightarrow> length h > 0)
            then sdkSessionId options else None),
       o_settingSources =
         (if truthy_obj (settingSources options) then settingSources options else None),
       o_sandbox = (if truthy_obj (sandbox options) then sandbox options else None),
       o_mcpServers = (if truthy_obj (mcpServers options) then mcpServers options else None) \<rparr>"

text \<open>
  The prompt payload: a plain string is passed on, a multi-part prompt becomes a
  one-element sequence holding one user turn without a parent tool use.
\<close>

record UserTurn =
  session_id :: string
  message_role :: string
  message_content :: "ContentPart list"
  parent_tool_use_id :: "string option"

datatype PromptPayload = PayloadText string | PayloadTurns "UserTurn list"

definition promptPayload :: "Prompt \<Rightarrow> PromptPayload" where
  "promptPayload p =
     (case p of
        MultiPart parts \<Rightarrow>
          PayloadTurns [\<lparr> session_id = '''', message_role = ''user'',
                          message_content = parts, parent_tool_use_id = None \<rparr>]
      | PlainText s \<Rightarrow> PayloadText s)"

text \<open>
  \<open>executeQuery\<close> hands the payload and the options to the SDK's \<open>query\<close>, a
  parameter here: the messages it streams and the error it throws after them, if any.
  Each message is yielded unchanged; an error is logged twice and thrown again. The
  result is the messages yielded, the console output and the error thrown.
\<close>

definition executeQuery ::
  "(PromptPayload \<Rightarrow> Options \<Rightarrow> 'msg list \<times> string option) \<Rightarrow> ExecuteOptions
     \<Rightarrow> 'msg list \<times> string list \<times> string option" where
  "executeQuery query options =
     (case query (promptPayload (prompt options)) (sdkOptions options) of
        (msgs, None) \<Rightarrow> (msgs, [], None)
      | (msgs, Some err) \<Rightarrow>
          (msgs,
           [''[ClaudeProvider] ERROR: executeQuery() error during execution: '' @ err,
            ''[ClaudeProvider] ERROR stack: '' @ err],
           Some err))"


section \<open>The provider factory: \<open>apps/server/src/providers/provider-factory.ts\<close>\<close>

text \<open>
  \<open>String.prototype.toLowerCase\<close> is a function of the language, and it is aware of
  Unicode: besides the letters \<open>A\<close> to \<open>Z\<close> it maps, for one, the Kelvin sign U+212A to
  \<open>k\<close>, so that an identifier spelt with it lower-cases to the alias \<open>haiku\<close>.
  \<open>getProviderForModel\<close> therefore takes the function as its parameter \<open>lower\<close>, and
  what is proved of it holds whatever that function is.

  \<open>toLowerCase\<close> below is the function on the letters \<open>A\<close> to \<open>Z\<close>, every other
  character of the 8-bit strings of this model left as it is. It evaluates ASCII
  inputs, and \<open>getProviderByName\<close> is written with it: no character outside \<open>A\<close> to \<open>Z\<close>
  lower-cases to a letter of \<open>claude\<close> or \<open>anthropic\<close>, so there it decides the two
  comparisons as the language's function does.
\<close>

definition toLowerChar :: "char \<Rightarrow> char" where
  "toLowerChar c =
     (case map_of (zip ''ABCDEFGHIJKLMNOPQRSTUVWXYZ'' ''abcdefghijklmnopqrstuvwxyz'') c of
        None \<Rightarrow> c | Some l \<Rightarrow> l)"

definition toLowerCase :: "string \<Rightarrow> string" where
  "toLowerCase s = map toLowerChar s"

definition startsWith :: "string \<Rightarrow> string \<Rightarrow> bool" where
  "startsWith s p = prefix p s"

text \<open>
  \<open>new ClaudeProvider()\<close> allocates an object. The heap is the list of the objects
  allocated so far and a reference is a position in it, so that identity of references
  (\<open>===\<close> on objects) is equality of positions. \<open>console.warn\<close> appends to the console.
  \<open>ClaudeProvider\<close> is the only class derived from \<open>BaseProvider\<close>.
\<close>

datatype BaseProvider = ClaudeProvider

fun getName :: "BaseProvider \<Rightarrow> string" where
  "getName ClaudeProvider = ''claude''"

type_synonym ref = nat

record world =
  heap :: "BaseProvider list"
  console :: "string list"

definition new_ClaudeProvider :: "world \<Rightarrow> ref \<times> world" where
  "new_ClaudeProvider w = (length (heap w), w\<lparr>heap := heap w @ [ClaudeProvider]\<rparr>)"

definition console_warn :: "string \<Rightarrow> world \<Rightarrow> world" where
  "console_warn msg w = w\<lparr>console := console w @ [msg]\<rparr>"

text \<open>
  The template literal of the warning; \<open>CHR 0x22\<close> is the double quote around the
  identifier.
\<close>

definition unknownModelWarning :: "string \<Rightarrow> string" where
  "unknownModelWarning modelId =
     ''[ProviderFactory] Unknown model prefix for '' @ [CHR 0x22] @ modelId
       @ [CHR 0x22] @ '', defaulting to Claude''"

definition getProviderForModel ::
  "(string \<Rightarrow> string) \<Rightarrow> string \<Rightarrow> world \<Rightarrow> ref \<times> world" where
  "getProviderForModel lower modelId w =
     (let lowerModel = lower modelId in
      if startsWith lowerModel ''claude-'' \<or> lowerModel \<in> set [''haiku'', ''sonnet'', ''opus'']
      then new_ClaudeProvider w
      else new_ClaudeProvider (console_warn (unknownModelWarning modelId) w))"

text \<open>The \<open>switch\<close> on the lower-cased name; \<open>None\<close> is \<open>null\<close>.\<close>

definition getProviderByName :: "string \<Rightarrow> world \<Rightarrow> ref option \<times> world" where
  "getProviderByName name w =
     (let lowerName = toLowerCase name in
      if lowerName = ''claude'' \<or> lowerName = ''anthropic''
      then (case new_ClaudeProvider w of (r, w') \<Rightarrow> (Some r, w'))
      else (None, w))"

definition getAllProviders :: "world \<Rightarrow> ref list \<times> world" where
  "getAllProviders w = (case new_ClaudeProvider w of (r, w') \<Rightarrow> ([r], w'))"


section \<open>The MCP connection tester: \<open>apps/server/src/services/mcp-test-service.ts\<close>\<close>

text \<open>
  \<open>MCPServerConfig\<close> is declared in \<open>@automaker/types\<close>; these are the properties the
  tester and the settings hook read. Field \<open>s_x\<close> is the property \<open>x\<close> of the source.
  The type is kept as a string, since the code compares it with string literals and
  falls through on anything else.
\<close>

type_synonym dict = "(string \<times> string) list"

record MCPServerConfig =
  s_id :: string
  s_name :: string
  s_description :: "string option"
  s_type :: "string option"
  s_enabled :: "bool option"
  s_command :: "string option"
  s_args :: "string list option"
  s_env :: "dict option"
  s_url :: "string option"
  s_headers :: "dict option"

record MCPToolInfo =
  t_name :: string
  t_description :: "string option"
  t_inputSchema :: "string option"
  t_enabled :: bool

record RemoteTool =
  r_name :: string
  r_description :: "string option"
  r_inputSchema :: "string option"

record MCPTestResult =
  success :: bool
  tools :: "MCPToolInfo list option"
  error :: "string option"
  connectionTime :: "int option"
  serverInfo :: "(string option \<times> string option) option"

text \<open>
  A thrown value: an \<open>Error\<close> with its message, or any other value with its string
  form. \<open>getErrorMessage\<close> reads the message of the first and the string of the second.
\<close>

datatype thrown = Error string | NonError string

fun getErrorMessage :: "thrown \<Rightarrow> string" where
  "getErrorMessage (Error message) = message"
| "getErrorMessage (NonError v) = v"

text \<open>
  The three transports of the MCP SDK with the arguments of their constructors. For SSE
  the second argument is \<open>requestInit\<close> and the third the headers that the \<open>fetch\<close> hook
  of \<open>eventSourceInit\<close> sets on every request of the event stream.
\<close>

datatype Transport =
    StdioClientTransport string "string list option" "dict option"
  | SSEClientTransport string "dict option" "dict option"
  | StreamableHTTPClientTransport string "dict option"

text \<open>
  What the tester does not own is a parameter: \<open>new URL\<close> (which throws on a malformed
  address), the two awaited operations of the client, and the two readings of the clock.
  An awaited operation that is raced against a timer is fulfilled, rejected, or still
  pending when the timer fires.
\<close>

datatype 'a settled = Fulfilled 'a | Rejected thrown | Pending

record sdk =
  newURL :: "string \<Rightarrow> thrown + string"
  connect :: "Transport \<Rightarrow> unit settled"
  listTools :: "Transport \<Rightarrow> RemoteTool list option settled"
  startTime :: int
  endTime :: int

definition DEFAULT_TIMEOUT :: nat where
  "DEFAULT_TIMEOUT = 10000"

text \<open>
  \<open>timeout ms message\<close> is a promise that rejects with \<open>Error message\<close> after \<open>ms\<close>
  milliseconds and never fulfils. \<open>Promise.race\<close> of an operation with it settles as
  the operation does, unless the operation is still pending when the timer fires.
  Durations are left out here; the tester with durations follows below.
\<close>

definition timeout :: "nat \<Rightarrow> string \<Rightarrow> thrown" where
  "timeout ms message = Error message"

fun race :: "'a settled \<Rightarrow> thrown \<Rightarrow> thrown + 'a" where
  "race (Fulfilled v) t = Inr v"
| "race (Rejected e) t = Inl e"
| "race Pending t = Inl t"

text \<open>
  \<open>!config.url\<close> and \<open>!config.command\<close> hold for \<open>undefined\<close> and for the empty
  string; \<open>required\<close> returns the value that passes the test, or the error thrown.
\<close>

definition required :: "string option \<Rightarrow> string \<Rightarrow> thrown + string" where
  "required field message =
     (case field of
        None \<Rightarrow> Inl (Error message)
      | Some v \<Rightarrow> if v = [] then Inl (Error message) else Inr v)"

definition createTransport :: "sdk \<Rightarrow> MCPServerConfig \<Rightarrow> thrown + Transport" where
  "createTransport k config =
     (if s_type config = Some ''sse'' then
        (case required (s_url config) ''URL is required for SSE transport'' of
           Inl e \<Rightarrow> Inl e
         | Inr url \<Rightarrow>
             (case newURL k url of
                Inl e \<Rightarrow> Inl e
              | Inr u \<Rightarrow> Inr (SSEClientTransport u (s_headers config) (s_headers config))))
      else if s_type config = Some ''http'' then
        (case required (s_url config) ''URL is required for HTTP transport'' of
           Inl e \<Rightarrow> Inl e
         | Inr url \<Rightarrow>
             (case newURL k url of
                Inl e \<Rightarrow> Inl e
              | Inr u \<Rightarrow> Inr (StreamableHTTPClientTransport u (s_headers config))))
      else
        (case required (s_command config) ''Command is required for stdio transport'' of
           Inl e \<Rightarrow> Inl e
         | Inr command \<Rightarrow>
             Inr (StdioClientTransport command (s_args config) (s_env config))))"

text \<open>
  The calls that \<open>testServer\<close> makes on the SDK, in order. Constructing a transport
  opens nothing; \<open>client.connect\<close> starts the transport and \<open>client.listTools\<close> sends a
  request over it. \<open>client.close\<close> closes the transport the client was connected with,
  if any; its failure is swallowed and it is taken to settle.
\<close>

datatype call =
    NewClient
  | NewTransport Transport
  | ClientConnect Transport
  | ClientListTools
  | ClientClose

text \<open>
  The calls that reach a transport: constructing it, connecting through it and sending
  the request for the tools. Creating the client does not, and neither does closing a
  client that was never connected.
\<close>

fun transportLevel :: "call \<Rightarrow> bool" where
  "transportLevel (NewTransport _) = True"
| "transportLevel (ClientConnect _) = True"
| "transportLevel ClientListTools = True"
| "transportLevel NewClient = False"
| "transportLevel ClientClose = False"

definition toToolInfo :: "RemoteTool \<Rightarrow> MCPToolInfo" where
  "toToolInfo tool =
     \<lparr> t_name = r_name tool, t_description = r_description tool,
       t_inputSchema = r_inputSchema tool, t_enabled = True \<rparr>"

definition failure :: "sdk \<Rightarrow> thrown \<Rightarrow> MCPTestResult" where
  "failure k e =
     \<lparr> success = False, tools = None, error = Some (getErrorMessage e),
       connectionTime = Some (endTime k - startTime k), serverInfo = None \<rparr>"

text \<open>
  The \<open>try\<close> block statement by statement; each \<open>Inl\<close> is the \<open>catch\<close> branch, and the
  last call of every trace is the \<open>finally\<close> block (the client was created first, so
  it is never \<open>null\<close> there).
\<close>

definition testServer :: "sdk \<Rightarrow> MCPServerConfig \<Rightarrow> MCPTestResult \<times> call list" where
  "testServer k serverConfig =
     (case createTransport k serverConfig of
        Inl e \<Rightarrow> (failure k e, [NewClient, ClientClose])
      | Inr transport \<Rightarrow>
          (case race (connect k transport) (timeout DEFAULT_TIMEOUT ''Connection timeout'') of
             Inl e \<Rightarrow>
               (failure k e,
                [NewClient, NewTransport transport, ClientConnect transport, ClientClose])
           | Inr _ \<Rightarrow>
               (case race (listTools k transport)
                       (timeout DEFAULT_TIMEOUT ''List tools timeout'') of
                  Inl e \<Rightarrow>
                    (failure k e,
                     [NewClient, NewTransport transport, ClientConnect transport,
                      ClientListTools, ClientClose])
                | Inr toolsResult \<Rightarrow>
                    (\<lparr> success = True,
                       tools = Some (map toToolInfo (nullish toolsResult [])),
                       error = None,
                       connectionTime = Some (endTime k - startTime k),
                       serverInfo = Some (Some (s_name serverConfig), None) \<rparr>,
                     [NewClient, NewTransport transport, ClientConnect transport,
                      ClientListTools, ClientClose]))))"

text \<open>
  \<open>testServerById\<close> looks the configuration up in the global settings; \<open>None\<close> for the
  settings is \<open>mcpServers\<close> being absent, \<open>Inl\<close> is \<open>getGlobalSettings\<close> throwing.
\<close>

definition notFound :: "string \<Rightarrow> string" where
  "notFound serverId = ''Server with ID '' @ [CHR 0x22] @ serverId @ [CHR 0x22] @ '' not found''"

definition testServerById ::
  "sdk \<Rightarrow> thrown + MCPServerConfig list option \<Rightarrow> string \<Rightarrow> MCPTestResult \<times> call list" where
  "testServerById k globalSettings serverId =
     (case globalSettings of
        Inl e \<Rightarrow>
          (\<lparr> success = False, tools = None, error = Some (getErrorMessage e),
             connectionTime = None, serverInfo = None \<rparr>, [])
      | Inr servers \<Rightarrow>
          (case find (\<lambda>s. s_id s = serverId) (nullish servers []) of
             None \<Rightarrow>
               (\<lparr> success = False, tools = None, error = Some (notFound serverId),
                  connectionTime = None, serverInfo = None \<rparr>, [])
           | Some serverConfig \<Rightarrow> testServer k serverConfig))"


subsection \<open>The tester with durations\<close>

text \<open>
  The same function with time. An awaited operation fulfils or rejects a number of
  milliseconds after it was started, or never settles. The statements between the
  awaits take no time, so that the elapsed time is the sum of the awaited durations:
  the time the code records is at least that.
\<close>

datatype 'a timed = FulfilsAfter nat 'a | RejectsAfter nat thrown | NeverSettles

fun settleTime :: "'a timed \<Rightarrow> nat option" where
  "settleTime (FulfilsAfter d _) = Some d"
| "settleTime (RejectsAfter d _) = Some d"
| "settleTime NeverSettles = None"


text \<open>
  The SDK and the clock with durations: \<open>client.connect\<close>, \<open>client.listTools\<close> and
  \<open>client.close\<close> (on the transport the client was connected with, if any), and the
  reading of \<open>Date.now()\<close> at the start.
\<close>

record timed_sdk =
  t_newURL :: "string \<Rightarrow> thrown + string"
  t_connect :: "Transport \<Rightarrow> unit timed"
  t_listTools :: "Transport \<Rightarrow> RemoteTool list option timed"
  t_close :: "Transport option \<Rightarrow> unit timed"
  t_now :: int

text \<open>
  \<open>this.timeout(ms, message)\<close>: the promise that \<open>setTimeout\<close> rejects after \<open>ms\<close>
  milliseconds. \<open>Promise.race\<close> of an operation and that timer settles as the one that
  settles first; an operation that settles in the very millisecond of the timer loses
  to it.
\<close>

definition timeoutAfter :: "nat \<Rightarrow> string \<Rightarrow> 'a timed" where
  "timeoutAfter ms message = RejectsAfter ms (Error message)"

definition raceTimed :: "'a timed \<Rightarrow> 'a timed \<Rightarrow> 'a timed" where
  "raceTimed p timer =
     (case (settleTime p, settleTime timer) of
        (None, _) \<Rightarrow> timer
      | (Some d, None) \<Rightarrow> p
      | (Some d, Some ms) \<Rightarrow> if d < ms then p else timer)"

text \<open>
  What the model without durations sees of an operation raced against a timer of \<open>ms\<close>
  milliseconds, and the SDK it sees when \<open>elapsed\<close> milliseconds lie between the two
  readings of the clock.
\<close>

fun observed :: "nat \<Rightarrow> 'a timed \<Rightarrow> 'a settled" where
  "observed ms (FulfilsAfter d v) = (if d < ms then Fulfilled v else Pending)"
| "observed ms (RejectsAfter d e) = (if d < ms then Rejected e else Pending)"
| "observed ms NeverSettles = Pending"

definition untimed :: "timed_sdk \<Rightarrow> nat \<Rightarrow> sdk" where
  "untimed k elapsed =
     \<lparr> newURL = t_newURL k,
       connect = (\<lambda>transport. observed DEFAULT_TIMEOUT (t_connect k transport)),
       listTools = (\<lambda>transport. observed DEFAULT_TIMEOUT (t_listTools k transport)),
       startTime = t_now k,
       endTime = t_now k + int elapsed \<rparr>"

text \<open>
  The \<open>finally\<close> block: \<open>await client.close()\<close> inside a \<open>try\<close> whose \<open>catch\<close> is empty.
  The result computed before is returned once \<open>close\<close> has settled, whichever way;
  there is no timer here, and \<open>None\<close> is \<open>testServer\<close> never returning.
\<close>

definition closing :: "timed_sdk \<Rightarrow> Transport option \<Rightarrow> 'r \<Rightarrow> 'r option" where
  "closing k attached result =
     (case t_close k attached of NeverSettles \<Rightarrow> None | _ \<Rightarrow> Some result)"

text \<open>
  \<open>testServer\<close> statement by statement, with the time elapsed at each reading of the
  clock. \<open>createTransport\<close> is synchronous and reads \<open>newURL\<close> only.
\<close>

definition testServerTimed ::
  "timed_sdk \<Rightarrow> MCPServerConfig \<Rightarrow> (MCPTestResult \<times> call list) option" where
  "testServerTimed k serverConfig =
     (case createTransport (untimed k 0) serverConfig of
        Inl e \<Rightarrow> closing k None (failure (untimed k 0) e, [NewClient, ClientClose])
      | Inr transport \<Rightarrow>
          (case raceTimed (t_connect k transport)
                  (timeoutAfter DEFAULT_TIMEOUT ''Connection timeout'') of
             NeverSettles \<Rightarrow> None
           | RejectsAfter d e \<Rightarrow>
               closing k (Some transport)
                 (failure (untimed k d) e,
                  [NewClient, NewTransport transport, ClientConnect transport, ClientClose])
           | FulfilsAfter d _ \<Rightarrow>
               (case raceTimed (t_listTools k transport)
                       (timeoutAfter DEFAULT_TIMEOUT ''List tools timeout'') of
                  NeverSettles \<Rightarrow> None
                | RejectsAfter d' e \<Rightarrow>
                    closing k (Some transport)
                      (failure (untimed k (d + d')) e,
                       [NewClient, NewTransport transport, ClientConnect transport,
                        ClientListTools, ClientClose])
                | FulfilsAfter d' toolsResult \<Rightarrow>
                    closing k (Some transport)
                      (\<lparr> success = True,
                         tools = Some (map toToolInfo (nullish toolsResult [])),
                         error = None,
                         connectionTime =
                           Some (endTime (untimed k (d + d')) - startTime (untimed k (d + d'))),
                         serverInfo = Some (Some (s_name serverConfig), None) \<rparr>,
                       [NewClient, NewTransport transport, ClientConnect transport,
                        ClientListTools, ClientClose]))))"


section \<open>The settings hook \<open>useMCPServers\<close>: the global JSON editor\<close>

text \<open>
  The hook is the source file \<open>unnamed/part_001\<close>
  (\<open>apps/ui/.../mcp-servers/hooks/use-mcp-servers.ts\<close>). The editor buffer holds
  \<open>JSON.stringify\<close> of a value and the save handler starts with \<open>JSON.parse\<close> of the
  buffer, so the buffer is modelled by the JSON value itself: a property whose value is
  \<open>undefined\<close> is dropped by \<open>JSON.stringify\<close> and is therefore never put into an
  object here. An object is the list of its properties in the order of enumeration,
  with distinct keys; for an object that is built by assignments this is the order of
  insertion as long as the keys are ordinary (\<open>ordinaryKey\<close> below), and what is
  proved of such an object for all stores is stated for ordinary names.
\<close>

datatype json =
    JNull
  | JBool bool
  | JNum int
  | JStr string
  | JArr "json list"
  | JObj "(string \<times> json) list"

text \<open>\<open>obj[key] = value\<close>: an existing property keeps its place, a new one goes last.\<close>

fun assign :: "(string \<times> 'v) list \<Rightarrow> string \<Rightarrow> 'v \<Rightarrow> (string \<times> 'v) list" where
  "assign [] key v = [(key, v)]"
| "assign ((k, w) # kvs) key v =
     (if k = key then (k, v) # kvs else (k, w) # assign kvs key v)"

text \<open>
  A name that JavaScript treats as an ordinary property key: it is not \<open>__proto__\<close>
  (assigning to that key sets the prototype and creates no property) and it does not
  start with a digit (a canonical array index is enumerated before all other keys,
  whenever it was inserted). For such names \<open>assign\<close> is what the assignment does.
\<close>

definition ordinaryKey :: "string \<Rightarrow> bool" where
  "ordinaryKey name \<longleftrightarrow>
     name \<noteq> ''__proto__''
     \<and> (case name of [] \<Rightarrow> True | c # _ \<Rightarrow> c \<notin> set ''0123456789'')"

text \<open>
  \<open>value.key\<close> for the keys the handlers read; \<open>None\<close> is \<open>undefined\<close>. Only an object
  has such a property (an array, a string, a number or a boolean gives \<open>undefined\<close>);
  on \<open>null\<close> the access throws, which the callers handle before they get here.
\<close>

fun getProp :: "json \<Rightarrow> string \<Rightarrow> json option" where
  "getProp (JObj kvs) key = map_of kvs key"
| "getProp _ key = None"

fun truthy :: "json option \<Rightarrow> bool" where
  "truthy None = False"
| "truthy (Some JNull) = False"
| "truthy (Some (JBool b)) = b"
| "truthy (Some (JNum n)) = (n \<noteq> 0)"
| "truthy (Some (JStr s)) = (s \<noteq> [])"
| "truthy (Some (JArr _)) = True"
| "truthy (Some (JObj _)) = True"

text \<open>\<open>a || d\<close> on JSON values.\<close>

definition orElse :: "json option \<Rightarrow> json \<Rightarrow> json" where
  "orElse a d = (case a of None \<Rightarrow> d | Some v \<Rightarrow> if truthy a then v else d)"

text \<open>\<open>typeof v === 'object'\<close> holds for \<open>null\<close>, arrays and objects.\<close>

fun typeof_object :: "json option \<Rightarrow> bool" where
  "typeof_object (Some JNull) = True"
| "typeof_object (Some (JArr _)) = True"
| "typeof_object (Some (JObj _)) = True"
| "typeof_object _ = False"

fun isArray :: "json option \<Rightarrow> bool" where
  "isArray (Some (JArr _)) = True"
| "isArray _ = False"

fun typeof_string :: "json option \<Rightarrow> bool" where
  "typeof_string (Some (JStr _)) = True"
| "typeof_string _ = False"

definition strOr :: "string option \<Rightarrow> string \<Rightarrow> string" where
  "strOr a d = (case a of None \<Rightarrow> d | Some v \<Rightarrow> if v = [] then d else v)"

definition dictJson :: "dict \<Rightarrow> json" where
  "dictJson d = JObj (map (\<lambda>(k, v). (k, JStr v)) d)"

definition optProp :: "string \<Rightarrow> json option \<Rightarrow> (string \<times> json) list" where
  "optProp key v = (case v of None \<Rightarrow> [] | Some j \<Rightarrow> [(key, j)])"

text \<open>
  The body of the loop of \<open>handleOpenGlobalJsonEdit\<close>: the \<open>serverConfig\<close> object built
  for one server, property by property. Neither \<open>server.id\<close> nor \<open>server.name\<close> is
  written into it.
\<close>

definition serverConfigOf :: "MCPServerConfig \<Rightarrow> json" where
  "serverConfigOf server =
     JObj
       ([(''type'', JStr (strOr (s_type server) ''stdio''))]
        @ (if truthy_str (s_description server)
             then optProp ''description'' (map_option JStr (s_description server)) else [])
        @ (if s_enabled server = Some False then [(''enabled'', JBool False)] else [])
        @ (if s_type server = Some ''stdio'' \<or> \<not> truthy_str (s_type server) then
             optProp ''command'' (map_option JStr (s_command server))
             @ (case s_args server of
                  None \<Rightarrow> []
                | Some as \<Rightarrow> if length as \<noteq> 0 then [(''args'', JArr (map JStr as))] else [])
             @ (case s_env server of
                  None \<Rightarrow> []
                | Some e \<Rightarrow> if length (map fst e) > 0 then [(''env'', dictJson e)] else [])
           else
             optProp ''url'' (map_option JStr (s_url server))
             @ (case s_headers server of
                  None \<Rightarrow> []
                | Some h \<Rightarrow>
                    if length (map fst h) > 0 then [(''headers'', dictJson h)] else [])))"

fun exportData :: "(string \<times> json) list \<Rightarrow> MCPServerConfig list \<Rightarrow> (string \<times> json) list" where
  "exportData acc [] = acc"
| "exportData acc (server # rest) =
     exportData (assign acc (s_name server) (serverConfigOf server)) rest"

definition handleOpenGlobalJsonEdit :: "MCPServerConfig list \<Rightarrow> json" where
  "handleOpenGlobalJsonEdit store = JObj [(''mcpServers'', JObj (exportData [] store))]"

text \<open>
  The data passed to the store, of type \<open>Omit<MCPServerConfig, 'id'>\<close>: it has no \<open>id\<close>.
  The values come out of the parsed JSON through unchecked casts, so they are JSON
  values; a property that is not set, or set to \<open>undefined\<close>, is \<open>None\<close>.
\<close>

record ServerData =
  d_name :: string
  d_type :: json
  d_description :: "json option"
  d_enabled :: bool
  d_command :: "json option"
  d_args :: "json option"
  d_env :: "json option"
  d_url :: "json option"
  d_headers :: "json option"

text \<open>
  The store (\<open>useAppStore\<close>) is not among the sources: the handler's effect on it is the
  list of the calls it makes, in order.
\<close>

datatype store_call =
    updateMCPServer string ServerData
  | addMCPServer ServerData
  | removeMCPServer string

text \<open>The error toasts of the save handler, with the name they quote.\<close>

datatype toast =
    InvalidJSON
  | InvalidFormat
  | InvalidConfig string
  | CommandRequired string
  | URLRequired string

datatype outcome = Refused toast | Saved "store_call list"

text \<open>\<open>(serverConfig.type as string) || 'stdio'\<close>\<close>

definition serverTypeOf :: "json \<Rightarrow> json" where
  "serverTypeOf config = orElse (getProp config ''type'') (JStr ''stdio'')"

text \<open>The body of the validation loop; \<open>None\<close> is a server that passes.\<close>

definition validateServer :: "string \<times> json \<Rightarrow> toast option" where
  "validateServer entry =
     (case entry of (name, config) \<Rightarrow>
        if \<not> typeof_object (Some config) \<or> config = JNull then Some (InvalidConfig name)
        else if serverTypeOf config = JStr ''stdio'' then
          (if \<not> truthy (getProp config ''command'') \<or> \<not> typeof_string (getProp config ''command'')
           then Some (CommandRequired name) else None)
        else if serverTypeOf config = JStr ''sse'' \<or> serverTypeOf config = JStr ''http'' then
          (if \<not> truthy (getProp config ''url'') \<or> \<not> typeof_string (getProp config ''url'')
           then Some (URLRequired name) else None)
        else None)"

fun validateAll :: "(string \<times> json) list \<Rightarrow> toast option" where
  "validateAll [] = None"
| "validateAll (entry # rest) =
     (case validateServer entry of Some t \<Rightarrow> Some t | None \<Rightarrow> validateAll rest)"

definition serverDataOf :: "string \<times> json \<Rightarrow> ServerData" where
  "serverDataOf entry =
     (case entry of (name, config) \<Rightarrow>
        if serverTypeOf config = JStr ''stdio'' then
          \<lparr> d_name = name, d_type = serverTypeOf config,
            d_description =
              (if truthy (getProp config ''description'') then getProp config ''description'' else None),
            d_enabled = (getProp config ''enabled'' \<noteq> Some (JBool False)),
            d_command = getProp config ''command'',
            d_args = (if isArray (getProp config ''args'') then getProp config ''args'' else None),
            d_env =
              (if typeof_object (getProp config ''env'') \<and> getProp config ''env'' \<noteq> Some JNull
               then getProp config ''env'' else None),
            d_url = None, d_headers = None \<rparr>
        else
          \<lparr> d_name = name, d_type = serverTypeOf config,
            d_description =
              (if truthy (getProp config ''description'') then getProp config ''description'' else None),
            d_enabled = (getProp config ''enabled'' \<noteq> Some (JBool False)),
            d_command = None, d_args = None, d_env = None,
            d_url = getProp config ''url'',
            d_headers =
              (if typeof_object (getProp config ''headers'') \<and> getProp config ''headers'' \<noteq> Some JNull
               then getProp config ''headers'' else None) \<rparr>)"

text \<open>
  \<open>new Map(mcpServers.map((s) => [s.name, s])).get(name)\<close>: of several servers with one
  name the map keeps the last.
\<close>

definition existingByName :: "MCPServerConfig list \<Rightarrow> string \<Rightarrow> MCPServerConfig option" where
  "existingByName store name = find (\<lambda>s. s_name s = name) (rev store)"

definition upsert :: "MCPServerConfig list \<Rightarrow> string \<times> json \<Rightarrow> store_call" where
  "upsert store entry =
     (case existingByName store (fst entry) of
        Some existing \<Rightarrow> updateMCPServer (s_id existing) (serverDataOf entry)
      | None \<Rightarrow> addMCPServer (serverDataOf entry))"

text \<open>
  \<open>handleSaveGlobalJsonEdit\<close>. Its inputs are \<open>store\<close>, the \<open>mcpServers\<close> of the store as
  the hook sees them (the store calls do not change that list while the handler runs), and the result
  of \<open>JSON.parse\<close> on the buffer, \<open>None\<close> when it throws. \<open>parsed.mcpServers\<close> throws on
  \<open>null\<close>; both land in the \<open>catch\<close> block.
\<close>

definition handleSaveGlobalJsonEdit :: "MCPServerConfig list \<Rightarrow> json option \<Rightarrow> outcome" where
  "handleSaveGlobalJsonEdit store globalJsonValue =
     (case globalJsonValue of
        None \<Rightarrow> Refused InvalidJSON
      | Some JNull \<Rightarrow> Refused InvalidJSON
      | Some parsed \<Rightarrow>
          (let servers = orElse (getProp parsed ''mcpServers'') parsed
           in case servers of
                JObj entries \<Rightarrow>
                  (case validateAll entries of
                     Some t \<Rightarrow> Refused t
                   | None \<Rightarrow>
                       Saved
                         (map (upsert store) entries
                          @ map (\<lambda>server. removeMCPServer (s_id server))
                              (filter (\<lambda>server. s_name server \<notin> set (map fst entries))
                                 store)))
              | _ \<Rightarrow> Refused InvalidFormat))"


text \<open>
  A server that has the field which the validation of the save handler asks for: a
  non-empty command when it is exported as stdio, a non-empty url when its type is
  \<open>sse\<close> or \<open>http\<close>.
\<close>

definition complete :: "MCPServerConfig \<Rightarrow> bool" where
  "complete s =
     (if s_type s = Some ''stdio'' \<or> \<not> truthy_str (s_type s) then truthy_str (s_command s)
      else if s_type s = Some ''sse'' \<or> s_type s = Some ''http'' then truthy_str (s_url s)
      else True)"


section \<open>The Auto-Mode Service: the run-loop state machine\<close>

text \<open>
  Modelled from the spec: the service (\<open>apps/server/src/services/auto-mode-service.ts\<close>)
  is not among the sources, only its unit test is. The states of section 4.4 of the
  specification.
\<close>

datatype LoopState = Idle | Running | Stopping | Failed

text \<open>
  Modelled from the spec: \<open>AutoLoopState\<close> of the data model (the running flag, the
  iteration count, the cancellation handle as the flag that cancellation was requested,
  and the target feature count, \<open>None\<close> for unlimited), missing with the service.
\<close>

record AutoLoopState =
  isRunning :: bool
  iteration :: nat
  cancelRequested :: bool
  targetCount :: "nat option"

text \<open>
  Modelled from the spec: the events of the service, missing with it. Each carries a
  message and the iteration index (section 4.4).
\<close>

datatype event_kind = LoopStarted | IterationDone | LoopStopped | LoopFinished | LoopFailed

datatype event = Event event_kind string nat

text \<open>
  Modelled from the spec: one service instance, missing from the sources: its state, its
  single loop state, the number of agent invocations in flight, and the events it has
  emitted on the bus, oldest first.
\<close>

record AutoModeService =
  loopState :: LoopState
  autoLoop :: AutoLoopState
  activeInvocations :: nat
  emitted :: "event list"

text \<open>Modelled from the spec: the loop state of an idle service, missing with the service.\<close>

definition idleLoop :: AutoLoopState where
  "idleLoop = \<lparr> isRunning = False, iteration = 0, cancelRequested = False, targetCount = None \<rparr>"

text \<open>Modelled from the spec: a newly constructed service, missing from the sources.\<close>

definition newService :: AutoModeService where
  "newService = \<lparr> loopState = Idle, autoLoop = idleLoop, activeInvocations = 0, emitted = [] \<rparr>"

datatype start_error = AlreadyRunning

text \<open>
  Modelled from the spec: \<open>startAutoLoop\<close>, missing from the sources. "If current state
  is Running, fails immediately with an already-running condition and performs no side
  effect. Otherwise transitions to Running, emits a loop-started event" and the loop
  begins at iteration 0. The result is the error, if any, and the service afterwards.
\<close>

definition startAutoLoop ::
  "string \<Rightarrow> nat option \<Rightarrow> AutoModeService \<Rightarrow> start_error option \<times> AutoModeService" where
  "startAutoLoop projectPath target svc =
     (if loopState svc = Running then (Some AlreadyRunning, svc)
      else
        (None,
         svc\<lparr> loopState := Running,
              autoLoop := \<lparr> isRunning = True, iteration = 0, cancelRequested = False,
                            targetCount = target \<rparr>,
              emitted := emitted svc @ [Event LoopStarted ''Auto mode started'' 0] \<rparr>))"

text \<open>
  Modelled from the spec: \<open>stopAutoLoop\<close>, missing from the sources. On a running
  service it requests cancellation, passes through Stopping to Idle and returns the
  number of invocations in flight; on any other it returns 0 and changes nothing.
\<close>

definition stopAutoLoop :: "AutoModeService \<Rightarrow> nat \<times> AutoModeService" where
  "stopAutoLoop svc =
     (if loopState svc = Running
      then (activeInvocations svc,
            svc\<lparr> loopState := Idle, autoLoop := idleLoop, activeInvocations := 0,
                 emitted := emitted svc
                    @ [Event LoopStopped ''Auto mode stopped'' (iteration (autoLoop svc))] \<rparr>)
      else (0, svc))"

text \<open>
  Modelled from the spec: the terminal result of one agent invocation, as the loop
  observes it; missing with the service.
\<close>

datatype iteration_result = Completed | Unrecoverable

text \<open>
  Modelled from the spec: one iteration of the background loop, missing from the
  sources. A running loop observes the terminal result of its invocation: an
  unrecoverable error ends it in Failed, reaching the target ends it in Idle, otherwise
  it continues with the next iteration. A service that is not running has no loop to
  iterate.
\<close>

definition runIteration :: "iteration_result \<Rightarrow> AutoModeService \<Rightarrow> AutoModeService" where
  "runIteration res svc =
     (if loopState svc \<noteq> Running then svc
      else
        (case res of
           Unrecoverable \<Rightarrow>
             svc\<lparr> loopState := Failed, autoLoop := idleLoop, activeInvocations := 0,
                  emitted := emitted svc
                     @ [Event LoopFailed ''Auto mode failed'' (iteration (autoLoop svc))] \<rparr>
         | Completed \<Rightarrow>
             (let n = Suc (iteration (autoLoop svc)) in
              if (case targetCount (autoLoop svc) of None \<Rightarrow> False | Some t \<Rightarrow> t \<le> n)
              then svc\<lparr> loopState := Idle, autoLoop := idleLoop, activeInvocations := 0,
                        emitted := emitted svc @ [Event LoopFinished ''Auto mode finished'' n] \<rparr>
              else svc\<lparr> autoLoop := (autoLoop svc)\<lparr>iteration := n\<rparr>,
                        emitted := emitted svc @ [Event IterationDone ''Iteration done'' n] \<rparr>)))"

text \<open>
  Modelled from the spec: what can happen to a service, missing from the sources: a
  caller starts or stops the loop, or the loop finishes an iteration. \<open>run\<close> applies a
  sequence of these, oldest first.
\<close>

datatype action = Start string "nat option" | Stop | Iterate iteration_result

fun step :: "AutoModeService \<Rightarrow> action \<Rightarrow> AutoModeService" where
  "step svc (Start projectPath target) = snd (startAutoLoop projectPath target svc)"
| "step svc Stop = snd (stopAutoLoop svc)"
| "step svc (Iterate res) = runIteration res svc"

definition run :: "action list \<Rightarrow> AutoModeService" where
  "run actions = foldl step newService actions"

text \<open>
  Modelled from the spec: the number of loops that the emitted events show as started
  and not yet ended; it reads the event log only, not the state of the service.
\<close>

fun openLoops :: "event list \<Rightarrow> int" where
  "openLoops [] = 0"
| "openLoops (Event LoopStarted _ _ # es) = openLoops es + 1"
| "openLoops (Event IterationDone _ _ # es) = openLoops es"
| "openLoops (Event _ _ _ # es) = openLoops es - 1"


section \<open>Concrete inputs\<close>

text \<open>Options with one MCP server and both permission flags left unspecified.\<close>

definition options_with_mcp :: ExecuteOptions where
  "options_with_mcp =
     \<lparr> prompt = PlainText ''hi'', model = ''claude-opus-4-5-20251101'', cwd = ''/tmp'',
       systemPrompt = None, maxTurns = None, allowedTools = None, abortController = None,
       conversationHistory = None, sdkSessionId = None,
       mcpServers = Some [(''fs'', McpStdioServerConfig ''npx'' [])],
       mcpAutoApproveTools = None, mcpUnrestrictedTools = None, settingSources = None,
       sandbox = None \<rparr>"

text \<open>Options without MCP servers, with an explicit tool list, a session and a history.\<close>

definition options_resume :: ExecuteOptions where
  "options_resume =
     \<lparr> prompt = PlainText ''go on'', model = ''sonnet'', cwd = ''/tmp'',
       systemPrompt = None, maxTurns = Some 5, allowedTools = Some [''Read''],
       abortController = None,
       conversationHistory = Some [\<lparr> role = ''user'', content = ''hi'' \<rparr>],
       sdkSessionId = Some ''sess-1'', mcpServers = None,
       mcpAutoApproveTools = None, mcpUnrestrictedTools = None, settingSources = None,
       sandbox = None \<rparr>"

text \<open>A world with no object allocated and nothing on the console.\<close>

definition empty_world :: world where
  "empty_world = \<lparr> heap = [], console = [] \<rparr>"

text \<open>An SDK whose operations all succeed at once.\<close>

definition quiet_sdk :: sdk where
  "quiet_sdk =
     \<lparr> newURL = (\<lambda>u. Inr u), connect = (\<lambda>t. Fulfilled ()),
       listTools = (\<lambda>t. Fulfilled (Some [])), startTime = 1000, endTime = 1003 \<rparr>"




text \<open>A stdio server \<open>fs\<close> run by \<open>npx\<close>, with the given identifier.\<close>

definition fs_server :: "string \<Rightarrow> MCPServerConfig" where
  "fs_server i =
     \<lparr> s_id = i, s_name = ''fs'', s_description = None, s_type = Some ''stdio'',
       s_enabled = Some True, s_command = Some ''npx'', s_args = None, s_env = None,
       s_url = None, s_headers = None \<rparr>"

text \<open>The same server in the array form, with its identifier and name inside.\<close>

definition fs_array_json :: json where
  "fs_array_json =
     JObj [(''mcpServers'',
            JArr [JObj [(''id'', JStr ''mcp-1''), (''name'', JStr ''fs''),
                        (''type'', JStr ''stdio''), (''command'', JStr ''npx'')]])]"

text \<open>A service that was started with target 3 and has finished one iteration.\<close>

definition running_service :: AutoModeService where
  "running_service = run [Start ''/test/project'' (Some 3), Iterate Completed]"


section \<open>Properties of the Claude provider\<close>

lemmas sdk_defs =
  sdkOptions_def shouldBypassPermissions_def shouldRestrictTools_def hasMcpServers_def
  mcpAutoApprove_def mcpUnrestricted_def nullish_def truthy_obj_def truthy_str_def

text \<open>
  Claim C1. In the options that \<open>executeQuery\<close> hands to the session, the permission
  mode is \<open>bypassPermissions\<close> exactly when the MCP server map is present and not empty
  and the auto-approve flag, true when unspecified, is true; otherwise it is \<open>default\<close>;
  and with \<open>bypassPermissions\<close> the flag \<open>allowDangerouslySkipPermissions\<close> is set.
\<close>

theorem executeQuery_permission_mode:
  "(o_permissionMode (sdkOptions options) = bypassPermissions \<longleftrightarrow>
      (\<exists>m. mcpServers options = Some m \<and> m \<noteq> [])
      \<and> (case mcpAutoApproveTools options of None \<Rightarrow> True | Some b \<Rightarrow> b))
   \<and> (o_permissionMode (sdkOptions options) \<noteq> bypassPermissions \<longrightarrow>
        o_permissionMode (sdkOptions options) = default_mode)
   \<and> (o_permissionMode (sdkOptions options) = bypassPermissions \<longrightarrow>
        o_allowDangerouslySkipPermissions (sdkOptions options) = Some True)"
proof -
  have mode: "o_permissionMode (sdkOptions options)
      = (if shouldBypassPermissions options then bypassPermissions else default_mode)"
    by (simp add: sdkOptions_def)
  have skip: "o_allowDangerouslySkipPermissions (sdkOptions options)
      = (if shouldBypassPermissions options then Some True else None)"
    by (simp add: sdkOptions_def)
  have bypass: "shouldBypassPermissions options \<longleftrightarrow>
      (\<exists>m. mcpServers options = Some m \<and> m \<noteq> [])
      \<and> (case mcpAutoApproveTools options of None \<Rightarrow> True | Some b \<Rightarrow> b)"
    by (auto simp: shouldBypassPermissions_def hasMcpServers_def mcpAutoApprove_def
          nullish_def split: option.splits)
  show ?thesis
    unfolding mode skip using bypass by auto
qed

theorem executeQuery_permission_mode_witness:
  "o_permissionMode (sdkOptions options_with_mcp) = bypassPermissions
   \<and> o_allowDangerouslySkipPermissions (sdkOptions options_with_mcp) = Some True
   \<and> o_permissionMode (sdkOptions options_resume) = default_mode"
  using executeQuery_permission_mode [of options_with_mcp]
    executeQuery_permission_mode [of options_resume]
  by (simp add: options_with_mcp_def options_resume_def)

text \<open>
  Claim C4. With \<open>shouldRestrictTools\<close> (the MCP server map is absent or empty, or
  \<open>mcpUnrestrictedTools\<close> is false) the allowed tools handed to the session are the
  caller's list when one is supplied and the eight default tools otherwise; without it
  no allow-list is handed over.
\<close>

theorem executeQuery_allowed_tools:
  "o_allowedTools (sdkOptions options) =
     (if mcpServers options = None \<or> mcpServers options = Some []
         \<or> mcpUnrestrictedTools options = Some False
      then (case allowedTools options of
              Some explicit \<Rightarrow> Some explicit
            | None \<Rightarrow>
                Some [''Read'', ''Write'', ''Edit'', ''Glob'', ''Grep'', ''Bash'',
                      ''WebSearch'', ''WebFetch''])
      else None)"
  by (auto simp: sdk_defs defaultTools_def split: option.splits)

theorem executeQuery_allowed_tools_witness:
  "o_allowedTools (sdkOptions options_resume) = Some [''Read'']
   \<and> o_allowedTools (sdkOptions options_with_mcp) = None
   \<and> o_allowedTools (sdkOptions (options_resume\<lparr>allowedTools := None\<rparr>)) = Some defaultTools"
  using executeQuery_allowed_tools [of options_resume]
    executeQuery_allowed_tools [of options_with_mcp]
    executeQuery_allowed_tools [of "options_resume\<lparr>allowedTools := None\<rparr>"]
  by (simp add: options_with_mcp_def options_resume_def defaultTools_def)

text \<open>
  Claim C9. \<open>executeQuery\<close> hands the session identifier to the session as \<open>resume\<close>
  exactly when a prior session identifier is present and the conversation history is
  present and not empty; in every other case no \<open>resume\<close> is handed over and a fresh
  session starts. The empty string is no session identifier: it is what the provider
  itself writes as \<open>session_id\<close> of a turn that belongs to no session yet, and the guard
  tests the identifier for truthiness.
\<close>

theorem executeQuery_resume:
  "o_resume (sdkOptions options) =
     (case (sdkSessionId options, conversationHistory options) of
        (Some sid, Some history) \<Rightarrow> if sid \<noteq> [] \<and> history \<noteq> [] then Some sid else None
      | _ \<Rightarrow> None)"
  by (auto simp: sdk_defs split: option.splits)

theorem executeQuery_resume_witness:
  "o_resume (sdkOptions options_resume) = Some ''sess-1''
   \<and> o_resume (sdkOptions options_with_mcp) = None"
  using executeQuery_resume [of options_resume] executeQuery_resume [of options_with_mcp]
  by (simp add: options_with_mcp_def options_resume_def)

text \<open>The options of these theorems are the ones the SDK's \<open>query\<close> is called with.\<close>

lemma executeQuery_calls_query:
  "query (promptPayload (prompt options)) (sdkOptions options) = (msgs, err) \<Longrightarrow>
   fst (executeQuery query options) = msgs \<and> snd (snd (executeQuery query options)) = err"
  by (simp add: executeQuery_def split: option.splits)


section \<open>Properties of the provider factory\<close>

lemma warning_mentions: "sublist modelId (unknownModelWarning modelId)"
  unfolding unknownModelWarning_def by (metis sublist_appendI append.assoc)

lemmas factory_defs =
  getProviderForModel_def getProviderByName_def new_ClaudeProvider_def console_warn_def
  startsWith_def Let_def

text \<open>
  Claim C5. For every model identifier, and whatever the lower-casing function is,
  \<open>getProviderForModel\<close> returns a reference to a newly allocated Claude provider;
  there is no branch that throws. When the lower-cased identifier starts with
  \<open>claude-\<close> or is one of \<open>haiku\<close>, \<open>sonnet\<close>, \<open>opus\<close>, nothing is written to the
  console; for every other identifier, the empty string included, exactly one warning
  is written and it contains the identifier as it was given.
\<close>

theorem getProviderForModel_routes:
  "case getProviderForModel lower modelId w of
     (r, w') \<Rightarrow>
       r < length (heap w') \<and> heap w' ! r = ClaudeProvider
       \<and> getName (heap w' ! r) = ''claude''
       \<and> (if prefix ''claude-'' (lower modelId)
               \<or> lower modelId \<in> {''haiku'', ''sonnet'', ''opus''}
           then console w' = console w
           else (\<exists>msg. console w' = console w @ [msg] \<and> sublist modelId msg))"
proof (cases "prefix ''claude-'' (lower modelId)
                \<or> lower modelId \<in> {''haiku'', ''sonnet'', ''opus''}")
  case True
  then have "getProviderForModel lower modelId w = new_ClaudeProvider w"
    by (auto simp: getProviderForModel_def startsWith_def Let_def)
  with True show ?thesis
    by (auto simp: new_ClaudeProvider_def nth_append)
next
  case False
  then have "getProviderForModel lower modelId w
      = new_ClaudeProvider (console_warn (unknownModelWarning modelId) w)"
    by (auto simp: getProviderForModel_def startsWith_def Let_def)
  with False show ?thesis
    by (auto simp: new_ClaudeProvider_def console_warn_def nth_append warning_mentions)
qed

theorem getProviderForModel_routes_witness:
  "getProviderForModel toLowerCase ''CLAUDE-opus-4-5'' empty_world
     = (0, \<lparr> heap = [ClaudeProvider], console = [] \<rparr>)
   \<and> getProviderForModel toLowerCase ''Sonnet'' empty_world
     = (0, \<lparr> heap = [ClaudeProvider], console = [] \<rparr>)
   \<and> getProviderForModel toLowerCase ''gpt-5.2'' empty_world
     = (0, \<lparr> heap = [ClaudeProvider], console = [unknownModelWarning ''gpt-5.2''] \<rparr>)
   \<and> getProviderForModel toLowerCase [] empty_world
     = (0, \<lparr> heap = [ClaudeProvider], console = [unknownModelWarning []] \<rparr>)"
  using getProviderForModel_routes [of toLowerCase "''CLAUDE-opus-4-5''" empty_world]
    getProviderForModel_routes [of toLowerCase "''Sonnet''" empty_world]
    getProviderForModel_routes [of toLowerCase "''gpt-5.2''" empty_world]
    getProviderForModel_routes [of toLowerCase "[]" empty_world]
  by (simp add: factory_defs empty_world_def toLowerCase_def toLowerChar_def)

text \<open>
  Claim C6. \<open>getProviderByName\<close> compares the lower-cased name: a name that is
  \<open>claude\<close> or \<open>anthropic\<close> in any letter case yields a reference to a newly allocated
  Claude provider, every other name yields \<open>null\<close> and changes nothing, and there is
  no branch that throws. The reference returned was not allocated before the call, so
  two calls, the second in any later state of the heap, never return the same reference.
\<close>

theorem getProviderByName_lookup:
  "(toLowerCase name \<in> {''claude'', ''anthropic''} \<longrightarrow>
      getProviderByName name w
        = (Some (length (heap w)), w\<lparr>heap := heap w @ [ClaudeProvider]\<rparr>))
   \<and> (toLowerCase name \<notin> {''claude'', ''anthropic''} \<longrightarrow>
        getProviderByName name w = (None, w))
   \<and> (\<forall>r1 w1 later r2 w2.
         getProviderByName name w = (Some r1, w1)
         \<and> length (heap w1) \<le> length (heap later)
         \<and> getProviderByName name later = (Some r2, w2)
         \<longrightarrow> r1 \<noteq> r2)"
  by (auto simp: factory_defs)

theorem getProviderByName_lookup_witness:
  "getProviderByName ''ANTHROPIC'' empty_world
     = (Some 0, \<lparr> heap = [ClaudeProvider], console = [] \<rparr>)
   \<and> getProviderByName ''Claude'' \<lparr> heap = [ClaudeProvider], console = [] \<rparr>
     = (Some 1, \<lparr> heap = [ClaudeProvider, ClaudeProvider], console = [] \<rparr>)
   \<and> getProviderByName ''cursor'' empty_world = (None, empty_world)"
  using getProviderByName_lookup [of "''ANTHROPIC''" empty_world]
    getProviderByName_lookup [of "''Claude''" "\<lparr> heap = [ClaudeProvider], console = [] \<rparr>"]
    getProviderByName_lookup [of "''cursor''" empty_world]
  by (simp add: empty_world_def toLowerCase_def toLowerChar_def)


section \<open>Properties of the MCP connection tester\<close>

lemmas tester_defs = testServer_def createTransport_def required_def failure_def

text \<open>
  Claim C7. For a configuration that lacks the field its transport type requires (no
  \<open>command\<close> for stdio, also when no type is given; no \<open>url\<close> for sse or http),
  \<open>testServer\<close> returns a failure result with one of the three validation messages and
  the elapsed time, and the only calls it makes are the creation of the client and its
  closing: no transport is constructed, nothing is connected, no tools are requested.
\<close>

theorem testServer_missing_field:
  assumes "(s_type config \<in> {None, Some ''stdio''} \<and> s_command config = None)
         \<or> (s_type config \<in> {Some ''sse'', Some ''http''} \<and> s_url config = None)"
  shows "\<exists>msg \<in> {''Command is required for stdio transport'',
                   ''URL is required for SSE transport'',
                   ''URL is required for HTTP transport''}.
           testServer k config =
             (\<lparr> success = False, tools = None, error = Some msg,
                connectionTime = Some (endTime k - startTime k), serverInfo = None \<rparr>,
              [NewClient, ClientClose])
           \<and> filter transportLevel (snd (testServer k config)) = []"
  using assms by (auto simp: tester_defs)

theorem testServer_missing_field_witness:
  "success (fst (testServer quiet_sdk ((fs_server ''mcp-1'')\<lparr>s_command := None\<rparr>))) = False
   \<and> connectionTime (fst (testServer quiet_sdk ((fs_server ''mcp-1'')\<lparr>s_command := None\<rparr>)))
       = Some 3
   \<and> snd (testServer quiet_sdk ((fs_server ''mcp-1'')\<lparr>s_command := None\<rparr>))
       = [NewClient, ClientClose]"
  using testServer_missing_field [of "(fs_server ''mcp-1'')\<lparr>s_command := None\<rparr>" quiet_sdk]
  by (auto simp: fs_server_def quiet_sdk_def)

text \<open>
  Claim C10. A configuration whose type is neither \<open>sse\<close> nor \<open>http\<close>, be it absent or
  any other string, is handled as a stdio server: without a command (absent or empty)
  \<open>createTransport\<close> throws the stdio validation error and \<open>testServer\<close> reports it; with
  a command a stdio transport is built from the command, the arguments and the
  environment, and \<open>testServer\<close> goes on to connect through it. The type itself is
  never rejected.
\<close>

theorem createTransport_defaults_to_stdio:
  assumes "s_type config \<noteq> Some ''sse''" and "s_type config \<noteq> Some ''http''"
  shows "(s_command config = None \<or> s_command config = Some [] \<longrightarrow>
            createTransport k config = Inl (Error ''Command is required for stdio transport'')
            \<and> testServer k config =
                (failure k (Error ''Command is required for stdio transport''),
                 [NewClient, ClientClose]))
       \<and> (\<forall>c. s_command config = Some c \<and> c \<noteq> [] \<longrightarrow>
            createTransport k config
              = Inr (StdioClientTransport c (s_args config) (s_env config))
            \<and> (\<exists>rest. snd (testServer k config) =
                  NewClient
                  # NewTransport (StdioClientTransport c (s_args config) (s_env config))
                  # ClientConnect (StdioClientTransport c (s_args config) (s_env config))
                  # rest))"
  using assms by (auto simp: tester_defs split: sum.splits)

theorem createTransport_defaults_to_stdio_witness:
  "createTransport quiet_sdk ((fs_server ''mcp-1'')\<lparr>s_type := Some ''websocket''\<rparr>)
     = Inr (StdioClientTransport ''npx'' None None)
   \<and> createTransport quiet_sdk ((fs_server ''mcp-1'')\<lparr>s_type := None, s_command := None\<rparr>)
     = Inl (Error ''Command is required for stdio transport'')"
  using createTransport_defaults_to_stdio
          [of "(fs_server ''mcp-1'')\<lparr>s_type := Some ''websocket''\<rparr>" quiet_sdk]
    createTransport_defaults_to_stdio
          [of "(fs_server ''mcp-1'')\<lparr>s_type := None, s_command := None\<rparr>" quiet_sdk]
  by (simp add: fs_server_def)


text \<open>
  When an awaited operation is still pending as its timer fires, the result is the
  failure with the message of that timer.
\<close>

lemma testServer_connect_timer:
  "createTransport k config = Inr transport \<Longrightarrow> connect k transport = Pending \<Longrightarrow>
   fst (testServer k config) = failure k (Error ''Connection timeout'')"
  by (simp add: testServer_def timeout_def)

lemma testServer_listTools_timer:
  "createTransport k config = Inr transport \<Longrightarrow> connect k transport = Fulfilled () \<Longrightarrow>
   listTools k transport = Pending \<Longrightarrow>
   fst (testServer k config) = failure k (Error ''List tools timeout'')"
  by (simp add: testServer_def timeout_def)


subsection \<open>Timeouts\<close>









text \<open>
  The model without durations is what remains of this one when time is forgotten:
  every result of \<open>testServerTimed\<close> is the result of \<open>testServer\<close> on the untimed SDK,
  for an elapsed time of at most twice the budget.
\<close>

lemma createTransport_untimed:
  "createTransport (untimed k elapsed) config = createTransport (untimed k 0) config"
proof -
  have h: "newURL (untimed k elapsed) = newURL (untimed k 0)"
    by (simp add: untimed_def)
  show ?thesis
    unfolding createTransport_def h by (rule refl)
qed

lemma observed_race:
  "(case raceTimed p (timeoutAfter ms message) of
      FulfilsAfter d v \<Rightarrow> observed ms p = Fulfilled v \<and> d < ms
    | RejectsAfter d e \<Rightarrow> race (observed ms p) (timeout ms message) = Inl e \<and> d \<le> ms
    | NeverSettles \<Rightarrow> False)"
  by (cases p) (simp_all add: raceTimed_def timeoutAfter_def timeout_def)

lemma testServerTimed_refines:
  assumes "testServerTimed k config = Some r"
  shows "\<exists>elapsed \<le> 2 * DEFAULT_TIMEOUT. r = testServer (untimed k elapsed) config"
proof (cases "createTransport (untimed k 0) config")
  case (Inl e)
  with assms have "r = testServer (untimed k 0) config"
    by (simp add: testServerTimed_def testServer_def closing_def split: timed.splits)
  then show ?thesis by blast
next
  case (Inr transport)
  note ct = Inr
  have conn: "connect (untimed k x) transport
      = observed DEFAULT_TIMEOUT (t_connect k transport)" for x
    by (simp add: untimed_def)
  have lst: "listTools (untimed k x) transport
      = observed DEFAULT_TIMEOUT (t_listTools k transport)" for x
    by (simp add: untimed_def)
  show ?thesis
  proof (cases "raceTimed (t_connect k transport)
                  (timeoutAfter DEFAULT_TIMEOUT ''Connection timeout'')")
    case NeverSettles
    with assms ct show ?thesis by (simp add: testServerTimed_def)
  next
    case (RejectsAfter d e)
    with observed_race [where p = "t_connect k transport" and ms = DEFAULT_TIMEOUT
        and message = "''Connection timeout''"]
    have o: "race (observed DEFAULT_TIMEOUT (t_connect k transport))
               (timeout DEFAULT_TIMEOUT ''Connection timeout'') = Inl e"
      and d: "d \<le> DEFAULT_TIMEOUT" by simp_all
    from assms ct RejectsAfter have "r = testServer (untimed k d) config"
      by (simp add: testServerTimed_def testServer_def closing_def
            createTransport_untimed [of k d] conn o split: timed.splits)
    with d show ?thesis by (intro exI [of _ d]) simp
  next
    case (FulfilsAfter d u)
    note connected = FulfilsAfter
    with observed_race [where p = "t_connect k transport" and ms = DEFAULT_TIMEOUT
        and message = "''Connection timeout''"]
    have o: "observed DEFAULT_TIMEOUT (t_connect k transport) = Fulfilled u"
      and d: "d < DEFAULT_TIMEOUT" by simp_all
    show ?thesis
    proof (cases "raceTimed (t_listTools k transport)
                    (timeoutAfter DEFAULT_TIMEOUT ''List tools timeout'')")
      case NeverSettles
      with assms ct connected show ?thesis by (simp add: testServerTimed_def)
    next
      case (RejectsAfter d' e)
      with observed_race [where p = "t_listTools k transport" and ms = DEFAULT_TIMEOUT
          and message = "''List tools timeout''"]
      have o': "race (observed DEFAULT_TIMEOUT (t_listTools k transport))
                  (timeout DEFAULT_TIMEOUT ''List tools timeout'') = Inl e"
        and d': "d' \<le> DEFAULT_TIMEOUT" by simp_all
      from assms ct connected RejectsAfter
      have "r = testServer (untimed k (d + d')) config"
        by (simp add: testServerTimed_def testServer_def closing_def
              createTransport_untimed [of k "d + d'"] conn lst o o' split: timed.splits)
      with d d' show ?thesis by (intro exI [of _ "d + d'"]) simp
    next
      case (FulfilsAfter d' toolsResult)
      with observed_race [where p = "t_listTools k transport" and ms = DEFAULT_TIMEOUT
          and message = "''List tools timeout''"]
      have o': "observed DEFAULT_TIMEOUT (t_listTools k transport) = Fulfilled toolsResult"
        and d': "d' < DEFAULT_TIMEOUT" by simp_all
      from assms ct connected FulfilsAfter
      have "r = testServer (untimed k (d + d')) config"
        by (simp add: testServerTimed_def testServer_def closing_def
              createTransport_untimed [of k "d + d'"] conn lst o o' split: timed.splits)
      with d d' show ?thesis by (intro exI [of _ "d + d'"]) simp
    qed
  qed
qed


section \<open>Properties of the global JSON editor\<close>

text \<open>The JSON shown in the editor does not depend on the identifiers of the servers.\<close>

lemma serverConfigOf_ignores_id: "serverConfigOf (server\<lparr>s_id := i\<rparr>) = serverConfigOf server"
  by (simp add: serverConfigOf_def)

lemma exportData_ignores_id:
  "exportData acc (map (\<lambda>s. s\<lparr>s_id := f s\<rparr>) store) = exportData acc store"
  by (induction store arbitrary: acc) (simp_all add: serverConfigOf_ignores_id)

lemma handleOpenGlobalJsonEdit_ignores_id:
  "handleOpenGlobalJsonEdit (map (\<lambda>s. s\<lparr>s_id := f s\<rparr>) store) = handleOpenGlobalJsonEdit store"
  by (simp add: handleOpenGlobalJsonEdit_def exportData_ignores_id)

text \<open>
  What saving the unedited JSON does in the store it was exported from, when the names
  are distinct and ordinary and every server has its required field: one \<open>updateMCPServer\<close> per
  server, under the identifier that the store holds for the name, and no server is
  added or removed. The identifiers come from the lookup by name, not from the JSON.
\<close>

lemma assign_fresh: "key \<notin> fst ` set acc \<Longrightarrow> assign acc key v = acc @ [(key, v)]"
  by (induction acc) auto

lemma exportData_distinct:
  "distinct (map s_name store) \<Longrightarrow> s_name ` set store \<inter> fst ` set acc = {} \<Longrightarrow>
   exportData acc store = acc @ map (\<lambda>s. (s_name s, serverConfigOf s)) store"
proof (induction store arbitrary: acc)
  case Nil
  then show ?case by simp
next
  case (Cons s store)
  have fresh: "s_name s \<notin> fst ` set acc"
    using Cons.prems(2) by auto
  have "s_name ` set store \<inter> fst ` set (acc @ [(s_name s, serverConfigOf s)]) = {}"
    using Cons.prems by auto
  with Cons.IH [of "acc @ [(s_name s, serverConfigOf s)]"] Cons.prems(1) fresh
  show ?case by (simp add: assign_fresh)
qed

lemma validateServer_complete:
  assumes "complete s"
  shows "validateServer (s_name s, serverConfigOf s) = None"
proof (cases "s_type s = Some ''stdio'' \<or> \<not> truthy_str (s_type s)")
  case True
  with assms obtain c where c: "s_command s = Some c" "c \<noteq> []"
    by (auto simp: complete_def truthy_str_def split: option.splits)
  from True c show ?thesis
    by (auto simp: validateServer_def serverConfigOf_def serverTypeOf_def orElse_def strOr_def
          optProp_def truthy_str_def split: option.splits)
next
  case False
  then obtain t where t: "s_type s = Some t" "t \<noteq> []" "t \<noteq> ''stdio''"
    by (auto simp: truthy_str_def split: option.splits)
  show ?thesis
  proof (cases "t = ''sse'' \<or> t = ''http''")
    case True
    with assms t obtain u where u: "s_url s = Some u" "u \<noteq> []"
      by (auto simp: complete_def truthy_str_def split: option.splits)
    from t u True show ?thesis
      by (auto simp: validateServer_def serverConfigOf_def serverTypeOf_def orElse_def
            strOr_def optProp_def truthy_str_def split: option.splits)
  next
    case False
    with t show ?thesis
      by (auto simp: validateServer_def serverConfigOf_def serverTypeOf_def orElse_def
            strOr_def optProp_def truthy_str_def split: option.splits)
  qed
qed

lemma validateAll_complete:
  "\<forall>s \<in> set store. complete s \<Longrightarrow>
   validateAll (map (\<lambda>s. (s_name s, serverConfigOf s)) store) = None"
  by (induction store) (simp_all add: validateServer_complete)

lemma find_app:
  "find P (xs @ ys) = (case find P xs of None \<Rightarrow> find P ys | Some x \<Rightarrow> Some x)"
  by (induction xs) simp_all

lemma existingByName_distinct:
  "distinct (map s_name store) \<Longrightarrow> s \<in> set store \<Longrightarrow>
   existingByName store (s_name s) = Some s"
  unfolding existingByName_def
proof (induction store)
  case Nil
  then show ?case by simp
next
  case (Cons a store)
  show ?case
  proof (cases "s \<in> set store")
    case True
    with Cons show ?thesis by (simp add: find_app)
  next
    case False
    with Cons.prems have "s = a" by simp
    moreover have "find (\<lambda>t. s_name t = s_name a) (rev store) = None"
    proof -
      have "s_name t \<noteq> s_name a" if "t \<in> set store" for t
        using Cons.prems(1) that by (metis distinct.simps(2) imageI list.simps(9) set_map)
      then show ?thesis by (simp add: find_None_iff)
    qed
    ultimately show ?thesis by (simp add: find_app)
  qed
qed

lemma save_unedited_in_same_store:
  assumes "distinct (map s_name store)" and "\<forall>s \<in> set store. complete s"
    and "\<forall>s \<in> set store. ordinaryKey (s_name s)"
  shows "handleSaveGlobalJsonEdit store (Some (handleOpenGlobalJsonEdit store)) =
           Saved (map (\<lambda>s. updateMCPServer (s_id s)
                              (serverDataOf (s_name s, serverConfigOf s))) store)"
proof -
  let ?entries = "map (\<lambda>s. (s_name s, serverConfigOf s)) store"
  have ex: "exportData [] store = ?entries"
    using exportData_distinct [OF assms(1), of "[]"] by simp
  have up: "map (upsert store) ?entries
      = map (\<lambda>s. updateMCPServer (s_id s) (serverDataOf (s_name s, serverConfigOf s))) store"
    using assms(1) by (simp add: upsert_def existingByName_distinct)
  have rm: "filter (\<lambda>server. s_name server \<notin> s_name ` set store) store = []"
    by (simp add: filter_empty_conv)
  show ?thesis
    by (simp add: handleSaveGlobalJsonEdit_def handleOpenGlobalJsonEdit_def ex orElse_def
          validateAll_complete [OF assms(2)] up rm image_image del: map_map)
qed

lemmas editor_defs =
  handleOpenGlobalJsonEdit_def serverConfigOf_def strOr_def truthy_str_def optProp_def
  handleSaveGlobalJsonEdit_def validateServer_def serverTypeOf_def orElse_def upsert_def
  existingByName_def serverDataOf_def

text \<open>
  Claim C2 (an export to JSON and its re-import reproduce every server with all its
  fields, the identifier included) at a store with the single server \<open>fs\<close>. The editor
  shows an object keyed by the server's name that holds neither the identifier nor a
  name property; a store whose server differs in the identifier only gives the same
  JSON; saving that JSON where no server \<open>fs\<close> exists calls \<open>addMCPServer\<close> with data
  that carries no identifier; where the server exists, the identifier in the
  \<open>updateMCPServer\<close> call is the one found in the store under that name; and the array
  form with the identifier inside is refused as an invalid format.
\<close>

theorem global_json_edit_loses_id:
  "fs_server ''mcp-1'' \<noteq> fs_server ''mcp-2''
   \<and> handleOpenGlobalJsonEdit [fs_server ''mcp-1'']
       = JObj [(''mcpServers'',
                JObj [(''fs'', JObj [(''type'', JStr ''stdio''), (''command'', JStr ''npx'')])])]
   \<and> handleOpenGlobalJsonEdit [fs_server ''mcp-2'']
       = handleOpenGlobalJsonEdit [fs_server ''mcp-1'']
   \<and> handleSaveGlobalJsonEdit [] (Some (handleOpenGlobalJsonEdit [fs_server ''mcp-1'']))
       = Saved [addMCPServer
                  \<lparr> d_name = ''fs'', d_type = JStr ''stdio'', d_description = None,
                    d_enabled = True, d_command = Some (JStr ''npx''), d_args = None,
                    d_env = None, d_url = None, d_headers = None \<rparr>]
   \<and> handleSaveGlobalJsonEdit [fs_server ''mcp-2'']
         (Some (handleOpenGlobalJsonEdit [fs_server ''mcp-1'']))
       = Saved [updateMCPServer ''mcp-2''
                  \<lparr> d_name = ''fs'', d_type = JStr ''stdio'', d_description = None,
                    d_enabled = True, d_command = Some (JStr ''npx''), d_args = None,
                    d_env = None, d_url = None, d_headers = None \<rparr>]
   \<and> handleSaveGlobalJsonEdit [fs_server ''mcp-1''] (Some fs_array_json)
       = Refused InvalidFormat"
  by (simp add: fs_server_def fs_array_json_def editor_defs)


section \<open>Properties of the Auto-Mode Service\<close>

lemma openLoops_append: "openLoops (es @ fs) = openLoops es + openLoops fs"
  by (induction es rule: openLoops.induct) simp_all

text \<open>
  The event log shows one open loop while the service is running and none otherwise;
  every action keeps it so.
\<close>

lemma step_openLoops:
  assumes "openLoops (emitted svc) = (if loopState svc = Running then 1 else 0)"
  shows "openLoops (emitted (step svc a)) = (if loopState (step svc a) = Running then 1 else 0)"
proof (cases a)
  case (Start projectPath target)
  with assms show ?thesis by (simp add: startAutoLoop_def openLoops_append)
next
  case Stop
  with assms show ?thesis by (simp add: stopAutoLoop_def openLoops_append)
next
  case (Iterate res)
  with assms show ?thesis
    by (cases res)
       (auto simp: runIteration_def Let_def openLoops_append split: option.splits)
qed

lemma foldl_step_openLoops:
  "openLoops (emitted svc) = (if loopState svc = Running then 1 else 0) \<Longrightarrow>
   openLoops (emitted (foldl step svc actions))
     = (if loopState (foldl step svc actions) = Running then 1 else 0)"
proof (induction actions arbitrary: svc)
  case Nil
  then show ?case by simp
next
  case (Cons a actions)
  from Cons.IH [OF step_openLoops [OF Cons.prems]] show ?case by simp
qed

lemma run_openLoops:
  "openLoops (emitted (run actions)) = (if loopState (run actions) = Running then 1 else 0)"
  unfolding run_def by (rule foldl_step_openLoops) (simp add: newService_def)

text \<open>
  Claim C3. In every state that a service reaches from its construction by starts,
  stops and iterations, the events show at most one loop started and not ended; and
  when the state is Running, \<open>startAutoLoop\<close> fails with the already-running condition
  and returns the service as it was: no event is emitted and the loop state, its
  iteration count included, is the same.
\<close>

theorem startAutoLoop_exclusive:
  "openLoops (emitted (run actions)) \<le> 1
   \<and> (loopState (run actions) = Running \<longrightarrow>
        startAutoLoop projectPath target (run actions) = (Some AlreadyRunning, run actions))"
  using run_openLoops [of actions] by (simp add: startAutoLoop_def)

theorem startAutoLoop_exclusive_witness:
  "loopState running_service = Running
   \<and> iteration (autoLoop running_service) = 1
   \<and> startAutoLoop ''/test/project'' (Some 3) running_service
       = (Some AlreadyRunning, running_service)"
  using startAutoLoop_exclusive
          [of "[Start ''/test/project'' (Some 3), Iterate Completed]" "''/test/project''" "Some 3"]
  by (simp add: running_service_def run_def startAutoLoop_def runIteration_def Let_def
        newService_def idleLoop_def)

end
